theory Spec2Isabelle
  imports Main
begin

section \<open>The notifications filter panel (NotificationsFilters.tsx)\<close>

text \<open>
  A shallow embedding of the one component of the repository slice,
  \<^verbatim>\<open>plugins/notifications/src/components/NotificationsFilters/NotificationsFilters.tsx\<close>:
  its two exported lookup tables, \<^verbatim>\<open>getSortByText\<close>, the three change handlers, the
  derived display values and the element tree the component returns.
\<close>

subsection \<open>JavaScript objects and property reads\<close>

text \<open>
  An object literal is an association list from property names to values, in insertion
  order (the order \<^verbatim>\<open>Object.keys\<close> reports). A read \<^verbatim>\<open>obj[k]\<close> finds an own
  property first, then a member inherited from \<^verbatim>\<open>Object.prototype\<close>, and is
  \<^verbatim>\<open>undefined\<close> otherwise. The inherited names are those of the language's standard
  library (they are not part of the repository); an inherited member carries none of the
  properties the component reads from a table entry.
\<close>

datatype error = TypeError

datatype 'a property = Own 'a | Inherited | Undefined

definition ObjectPrototypeKeys :: "string list" where
  "ObjectPrototypeKeys =
     [''constructor'', ''hasOwnProperty'', ''isPrototypeOf'', ''propertyIsEnumerable'',
      ''toLocaleString'', ''toString'', ''valueOf'', ''__proto__'',
      ''__defineGetter__'', ''__defineSetter__'', ''__lookupGetter__'', ''__lookupSetter__'']"

definition js_get :: "(string \<times> 'a) list \<Rightarrow> string \<Rightarrow> 'a property" where
  "js_get obj k =
     (case map_of obj k of
        Some x \<Rightarrow> Own x
      | None \<Rightarrow> if k \<in> set ObjectPrototypeKeys then Inherited else Undefined)"

definition js_keys :: "(string \<times> 'a) list \<Rightarrow> string list" where
  "js_keys obj = map fst obj"

text \<open>
  \<^verbatim>\<open>Array.prototype.map\<close> with a callback that may throw: the first exception ends
  the traversal.
\<close>

fun array_map :: "('a \<Rightarrow> error + 'b) \<Rightarrow> 'a list \<Rightarrow> error + 'b list" where
  "array_map f [] = Inr []"
| "array_map f (x # xs) =
     (case f x of
        Inl e \<Rightarrow> Inl e
      | Inr y \<Rightarrow> (case array_map f xs of Inl e \<Rightarrow> Inl e | Inr ys \<Rightarrow> Inr (y # ys)))"

subsection \<open>Types of the component\<close>

text \<open>
  \<^verbatim>\<open>SortBy = Required<Pick<GetNotificationsOptions, 'sort' | 'sortOrder'>>\<close>. The type
  \<^verbatim>\<open>GetNotificationsOptions\<close> is imported from \<^verbatim>\<open>../../api\<close>; at run time both
  fields are strings, and TypeScript's \<^verbatim>\<open>Required\<close> is erased, so a field may be
  absent (\<open>None\<close>): that is the object \<^verbatim>\<open>{}\<close> a spread of \<^verbatim>\<open>undefined\<close> yields.
\<close>

record sortBy =
  sort' :: "string option"
  sortOrder :: "string option"

text \<open>
  \<^verbatim>\<open>NotificationsFiltersProps\<close>. An optional prop is an \<open>option\<close>. The four callbacks
  are owned by the parent; a callback is a function from its argument to the effect
  \<open>'e\<close> that invoking it has, and an operation of the component returns the list of
  effects it caused, in order. A callback is taken to return: what the parent does
  inside it is not part of the component.
\<close>

record 'e props =
  unreadOnly :: "bool option"
  onUnreadOnlyChanged :: "bool option \<Rightarrow> 'e"
  createdAfter :: "string option"
  onCreatedAfterChanged :: "string \<Rightarrow> 'e"
  sorting :: sortBy
  onSortingChanged :: "sortBy \<Rightarrow> 'e"
  saved :: "bool option"
  onSavedChanged :: "bool option \<Rightarrow> 'e"

subsection \<open>The lookup tables\<close>

text \<open>
  Both tables map a key to an entry with a \<^verbatim>\<open>label\<close>. An entry of
  \<^verbatim>\<open>CreatedAfterOptions\<close> also has \<^verbatim>\<open>getDate\<close>, a function that reads the clock:
  here a function from \<^verbatim>\<open>Date.now()\<close> (milliseconds) to the milliseconds of the date it
  builds. An entry of \<^verbatim>\<open>SortByOptions\<close> also has \<^verbatim>\<open>sortBy\<close>.
\<close>

record labelled =
  label :: string

record createdAfterOption = labelled +
  getDate :: "int \<Rightarrow> int"

record sortByOption = labelled +
  sortBy :: sortBy

definition CreatedAfterOptions :: "(string \<times> createdAfterOption) list" where
  "CreatedAfterOptions =
     [(''last24h'', \<lparr>label = ''Last 24h'', getDate = (\<lambda>now. now - 24 * 3600 * 1000)\<rparr>),
      (''lastWeek'', \<lparr>label = ''Last week'', getDate = (\<lambda>now. now - 7 * 24 * 3600 * 1000)\<rparr>),
      (''all'', \<lparr>label = ''Any time'', getDate = (\<lambda>now. 0)\<rparr>)]"

definition SortByOptions :: "(string \<times> sortByOption) list" where
  "SortByOptions =
     [(''newest'', \<lparr>label = ''Newest on top'',
                    sortBy = \<lparr>sort' = Some ''created'', sortOrder = Some ''desc''\<rparr>\<rparr>),
      (''oldest'', \<lparr>label = ''Oldest on top'',
                    sortBy = \<lparr>sort' = Some ''created'', sortOrder = Some ''asc''\<rparr>\<rparr>),
      (''topic'', \<lparr>label = ''Topic'',
                   sortBy = \<lparr>sort' = Some ''topic'', sortOrder = Some ''asc''\<rparr>\<rparr>),
      (''origin'', \<lparr>label = ''Origin'',
                    sortBy = \<lparr>sort' = Some ''origin'', sortOrder = Some ''asc''\<rparr>\<rparr>)]"

subsection \<open>getSortByText\<close>

text \<open>
  The argument is optional (\<^verbatim>\<open>sortBy?: SortBy\<close>); \<^verbatim>\<open>sortBy?.sort === 'created'\<close>
  holds only of a present object whose field is that string.
\<close>

definition getSortByText :: "sortBy option \<Rightarrow> string" where
  "getSortByText sb =
     (if Option.bind sb sort' = Some ''created'' \<and> Option.bind sb sortOrder = Some ''asc''
        then ''oldest''
      else if Option.bind sb sort' = Some ''topic'' then ''topic''
      else if Option.bind sb sort' = Some ''origin'' then ''origin''
      else ''newest'')"

subsection \<open>The change handlers\<close>

text \<open>
  A handler receives the event's \<^verbatim>\<open>target.value\<close>, which the source casts to a
  string. It returns the effects of the callbacks it invoked, or the exception it threw.
  The handler of the sort-by select reads \<^verbatim>\<open>SortByOptions\<close>; the table is an argument
  of \<open>handleOnSortByChanged_with\<close>, and \<open>handleOnSortByChanged\<close> is the handler of the
  source, on the table of the source.
\<close>

definition handleOnCreatedAfterChanged :: "'e props \<Rightarrow> string \<Rightarrow> error + 'e list" where
  "handleOnCreatedAfterChanged p v = Inr [onCreatedAfterChanged p v]"

definition handleOnViewChanged :: "'e props \<Rightarrow> string \<Rightarrow> error + 'e list" where
  "handleOnViewChanged p v =
     (if v = ''unread'' then Inr [onUnreadOnlyChanged p (Some True), onSavedChanged p None]
      else if v = ''read'' then Inr [onUnreadOnlyChanged p (Some False), onSavedChanged p None]
      else if v = ''saved'' then Inr [onUnreadOnlyChanged p None, onSavedChanged p (Some True)]
      else Inr [onUnreadOnlyChanged p None, onSavedChanged p None])"

text \<open>
  \<^verbatim>\<open>{ ...o }\<close> builds a new object with the properties of \<open>o\<close>; the spread of
  \<^verbatim>\<open>undefined\<close> is the empty object.
\<close>

definition spread :: "sortBy option \<Rightarrow> sortBy" where
  "spread o' =
     (case o' of
        None \<Rightarrow> \<lparr>sort' = None, sortOrder = None\<rparr>
      | Some sb \<Rightarrow> \<lparr>sort' = sort' sb, sortOrder = sortOrder sb\<rparr>)"

definition handleOnSortByChanged_with ::
    "(string \<times> sortByOption) list \<Rightarrow> 'e props \<Rightarrow> string \<Rightarrow> error + 'e list" where
  "handleOnSortByChanged_with table p v =
     (let idx = (if v = [] then ''newest'' else v) in
      case js_get table idx of
        Undefined \<Rightarrow> Inl TypeError
      | Inherited \<Rightarrow> Inr [onSortingChanged p (spread None)]
      | Own option \<Rightarrow> Inr [onSortingChanged p (spread (Some (sortBy option)))])"

definition handleOnSortByChanged :: "'e props \<Rightarrow> string \<Rightarrow> error + 'e list" where
  "handleOnSortByChanged = handleOnSortByChanged_with SortByOptions"

subsection \<open>Derived display values and rendering\<close>

definition sortByText :: "'e props \<Rightarrow> string" where
  "sortByText p = getSortByText (Some (sorting p))"

definition viewValue :: "'e props \<Rightarrow> string" where
  "viewValue p =
     (if saved p = Some True then ''saved''
      else if unreadOnly p = Some True then ''unread''
      else if unreadOnly p = Some False then ''read''
      else ''all'')"

text \<open>
  The elements the component builds. A \<open>Select\<close> carries its \<^verbatim>\<open>labelId\<close>,
  \<^verbatim>\<open>label\<close>, \<^verbatim>\<open>placeholder\<close>, \<^verbatim>\<open>value\<close>, its \<^verbatim>\<open>onChange\<close> handler and its
  children; a \<open>MenuItem\<close> its \<^verbatim>\<open>value\<close> (also its \<^verbatim>\<open>key\<close>) and its content;
  a \<open>GridItem\<close> its \<^verbatim>\<open>xs\<close>; \<open>Typography\<close> and \<open>Divider\<close> their
  \<^verbatim>\<open>variant\<close>; an \<open>InputLabel\<close> its \<^verbatim>\<open>id\<close> and content. The styling attributes of
  \<open>FormControl\<close>, the same on every render, are left out.
\<close>

datatype 'e element =
    Fragment "'e element list"
  | GridContainer "'e element list"
  | GridItem nat "'e element list"
  | Typography string string
  | Divider string
  | FormControl "'e element list"
  | InputLabel string string
  | Select "string option" string "string option" "string option"
      "string \<Rightarrow> error + 'e list" "'e element list"
  | MenuItem string "string option"

text \<open>
  \<^verbatim>\<open>Object.keys(T).map(key => <MenuItem value={key} key={key}>{T[key].label}</MenuItem>)\<close>
\<close>

definition optionItem ::
    "(string \<times> ('a labelled_scheme)) list \<Rightarrow> string \<Rightarrow> error + 'e element" where
  "optionItem table key =
     (case js_get table key of
        Undefined \<Rightarrow> Inl TypeError
      | Inherited \<Rightarrow> Inr (MenuItem key None)
      | Own option \<Rightarrow> Inr (MenuItem key (Some (label option))))"

definition optionItems ::
    "(string \<times> ('a labelled_scheme)) list \<Rightarrow> error + 'e element list" where
  "optionItems table = array_map (optionItem table) (js_keys table)"

text \<open>
  The component: the element tree it returns, with the effects of the callbacks invoked
  while rendering (the body invokes none: it only builds the handlers and the tree).
\<close>

definition NotificationsFilters_with ::
    "(string \<times> createdAfterOption) list \<Rightarrow> (string \<times> sortByOption) list \<Rightarrow> 'e props
       \<Rightarrow> error + ('e element \<times> 'e list)" where
  "NotificationsFilters_with createdAfterTable sortByTable p =
     (case optionItems createdAfterTable of
        Inl e \<Rightarrow> Inl e
      | Inr createdAfterItems \<Rightarrow>
     (case optionItems sortByTable of
        Inl e \<Rightarrow> Inl e
      | Inr sortByItems \<Rightarrow>
        Inr (Fragment
          [GridContainer
            [GridItem 12 [Typography ''h6'' ''Filters'', Divider ''fullWidth''],
             GridItem 12
               [FormControl
                 [InputLabel ''notifications-filter-view'' ''View'',
                  Select (Some ''notifications-filter-view'') ''View'' None
                    (Some (viewValue p)) (handleOnViewChanged p)
                    [MenuItem ''unread'' (Some ''New only''),
                     MenuItem ''saved'' (Some ''Saved''),
                     MenuItem ''read'' (Some ''Marked as read''),
                     MenuItem ''all'' (Some ''All'')]]],
             GridItem 12
               [FormControl
                 [InputLabel ''notifications-filter-view'' ''Created after'',
                  Select None ''Created after'' (Some ''Notifications since'')
                    (createdAfter p) (handleOnCreatedAfterChanged p)
                    createdAfterItems]],
             GridItem 12
               [FormControl
                 [InputLabel ''notifications-filter-sort'' ''Sort by'',
                  Select None ''Sort by'' (Some ''Field to sort by'')
                    (Some (sortByText p)) (handleOnSortByChanged_with sortByTable p)
                    sortByItems]]]],
          [])))"

definition NotificationsFilters :: "'e props \<Rightarrow> error + ('e element \<times> 'e list)" where
  "NotificationsFilters = NotificationsFilters_with CreatedAfterOptions SortByOptions"

subsection \<open>A parent that records the calls it receives\<close>

text \<open>
  To speak of which callback was invoked with which argument, the callbacks are
  instantiated by constructors: the effect of a call is the record of that call.
  \<open>argument\<close> is the JavaScript value a recorded call was given.
\<close>

datatype call =
    is_OnUnreadOnlyChanged: OnUnreadOnlyChanged "bool option"
  | is_OnCreatedAfterChanged: OnCreatedAfterChanged string
  | is_OnSortingChanged: OnSortingChanged sortBy
  | is_OnSavedChanged: OnSavedChanged "bool option"

definition recorder :: "bool option \<Rightarrow> string option \<Rightarrow> sortBy \<Rightarrow> bool option \<Rightarrow> call props" where
  "recorder u c s sv =
     \<lparr>unreadOnly = u, onUnreadOnlyChanged = OnUnreadOnlyChanged,
      createdAfter = c, onCreatedAfterChanged = OnCreatedAfterChanged,
      sorting = s, onSortingChanged = OnSortingChanged,
      saved = sv, onSavedChanged = OnSavedChanged\<rparr>"

datatype jsval = JUndefined | JBoolean bool | JString string | JObject sortBy

fun flag :: "bool option \<Rightarrow> jsval" where
  "flag None = JUndefined"
| "flag (Some b) = JBoolean b"

fun argument :: "call \<Rightarrow> jsval" where
  "argument (OnUnreadOnlyChanged b) = flag b"
| "argument (OnCreatedAfterChanged s) = JString s"
| "argument (OnSortingChanged sb) = JObject sb"
| "argument (OnSavedChanged b) = flag b"

text \<open>
  An operation forwards the event value \<open>v\<close> verbatim when it completes, invokes a
  callback, and every callback it invokes is given the string \<open>v\<close> itself.
\<close>

definition forwards_verbatim :: "error + call list \<Rightarrow> string \<Rightarrow> bool" where
  "forwards_verbatim r v =
     (case r of
        Inl e \<Rightarrow> False
      | Inr cs \<Rightarrow> cs \<noteq> [] \<and> list_all (\<lambda>c. argument c = JString v) cs)"

text \<open>How often a completed operation invoked the callbacks selected by \<open>which\<close>.\<close>

definition invocations :: "(call \<Rightarrow> bool) \<Rightarrow> error + call list \<Rightarrow> nat" where
  "invocations which r = (case r of Inl e \<Rightarrow> 0 | Inr cs \<Rightarrow> length (filter which cs))"

text \<open>What of a table is displayed: its keys, in order, each with its label.\<close>

definition labels_of :: "(string \<times> ('a labelled_scheme)) list \<Rightarrow> (string \<times> string) list" where
  "labels_of table = map (\<lambda>(k, option). (k, label option)) table"

text \<open>The entries an object literal writes under the key \<open>k\<close>.\<close>

definition entries_at :: "(string \<times> 'a) list \<Rightarrow> string \<Rightarrow> 'a list" where
  "entries_at obj k = map snd (filter (\<lambda>(k', x). k' = k) obj)"

subsection \<open>The tables as shared objects\<close>

text \<open>
  Whether a table can change depends on who holds a reference to its objects. Here the
  \<^verbatim>\<open>sortBy\<close> objects live in a heap, an entry of \<^verbatim>\<open>SortByOptions\<close> holds the
  address of its \<^verbatim>\<open>sortBy\<close> object, and \<open>received\<close> lists the addresses the parent
  was handed through \<^verbatim>\<open>onSortingChanged\<close>. The other callbacks receive strings,
  booleans and \<^verbatim>\<open>undefined\<close>, which are not references.
\<close>

type_synonym addr = nat

record sortByOptionRef = labelled +
  sortByRef :: addr

record store =
  createdAfterTable :: "(string \<times> createdAfterOption) list"
  sortByTable :: "(string \<times> sortByOptionRef) list"
  heap :: "addr \<Rightarrow> sortBy"
  fresh :: addr
  received :: "addr list"

text \<open>The store after the module is loaded: the two object literals have been built.\<close>

definition initialStore :: store where
  "initialStore =
     \<lparr>createdAfterTable = CreatedAfterOptions,
      sortByTable =
        [(''newest'', \<lparr>label = ''Newest on top'', sortByRef = 0\<rparr>),
         (''oldest'', \<lparr>label = ''Oldest on top'', sortByRef = 1\<rparr>),
         (''topic'', \<lparr>label = ''Topic'', sortByRef = 2\<rparr>),
         (''origin'', \<lparr>label = ''Origin'', sortByRef = 3\<rparr>)],
      heap = (\<lambda>a. spread None)
        (0 := \<lparr>sort' = Some ''created'', sortOrder = Some ''desc''\<rparr>,
         1 := \<lparr>sort' = Some ''created'', sortOrder = Some ''asc''\<rparr>,
         2 := \<lparr>sort' = Some ''topic'', sortOrder = Some ''asc''\<rparr>,
         3 := \<lparr>sort' = Some ''origin'', sortOrder = Some ''asc''\<rparr>),
      fresh = 4,
      received = []\<rparr>"

text \<open>The table \<^verbatim>\<open>SortByOptions\<close> as a value: every reference followed.\<close>

definition deref :: "store \<Rightarrow> (string \<times> sortByOption) list" where
  "deref st =
     map (\<lambda>(k, r). (k, \<lparr>label = label r, sortBy = heap st (sortByRef r)\<rparr>)) (sortByTable st)"

text \<open>
  \<^verbatim>\<open>onSortingChanged({ ...option.sortBy })\<close>: the spread allocates a new object, and the
  parent receives the address of that object.
\<close>

definition passCopy :: "sortBy \<Rightarrow> store \<Rightarrow> (error + addr) \<times> store" where
  "passCopy copy st =
     (let a = fresh st in
      (Inr a, st\<lparr>heap := (heap st)(a := copy), fresh := Suc a, received := a # received st\<rparr>))"

definition handleOnSortByChanged_store :: "string \<Rightarrow> store \<Rightarrow> (error + addr) \<times> store" where
  "handleOnSortByChanged_store v st =
     (let idx = (if v = [] then ''newest'' else v) in
      case js_get (sortByTable st) idx of
        Undefined \<Rightarrow> (Inl TypeError, st)
      | Inherited \<Rightarrow> passCopy (spread None) st
      | Own option \<Rightarrow> passCopy (spread (Some (heap st (sortByRef option)))) st)"

text \<open>
  The addresses the table holds, and the separation the component keeps: every address of
  the table is allocated, and none of them is in the parent's hands.
\<close>

definition tableRefs :: "store \<Rightarrow> addr list" where
  "tableRefs st = map (\<lambda>(k, r). sortByRef r) (sortByTable st)"

definition separated :: "store \<Rightarrow> bool" where
  "separated st \<longleftrightarrow>
     list_all (\<lambda>r. r < fresh st) (tableRefs st)
     \<and> list_all (\<lambda>a. a \<notin> set (tableRefs st)) (received st)"

text \<open>
  What can happen to the store: the component renders or handles a change event, or the
  parent writes to an object it holds a reference to. Rendering and the other two handlers
  read the tables and write nothing.
\<close>

datatype event =
    Render
  | ViewChanged string
  | CreatedAfterChanged string
  | SortByChanged string
  | ParentWrites addr sortBy

fun step :: "store \<Rightarrow> event \<Rightarrow> store" where
  "step st Render = st"
| "step st (ViewChanged v) = st"
| "step st (CreatedAfterChanged v) = st"
| "step st (SortByChanged v) = snd (handleOnSortByChanged_store v st)"
| "step st (ParentWrites a sb) =
     (if a \<in> set (received st) then st\<lparr>heap := (heap st)(a := sb)\<rparr> else st)"

definition run :: "event list \<Rightarrow> store \<Rightarrow> store" where
  "run es st = foldl step st es"

subsection \<open>Rendering in the store\<close>

text \<open>
  The two tables are module-level objects, so a render reads them from the store it runs
  in: the store is whatever the events before the render have left. The component
  function calls no hook and assigns to nothing outside its own locals, so the store it
  leaves is the store it found. The result is the rendering on the tables as they are in
  that store.
\<close>

definition NotificationsFilters_store ::
    "'e props \<Rightarrow> store \<Rightarrow> (error + ('e element \<times> 'e list)) \<times> store" where
  "NotificationsFilters_store p st =
     (NotificationsFilters_with (createdAfterTable st) (deref st) p, st)"

text \<open>
  Three observations of an element tree: what is displayed (the tree with every
  \<^verbatim>\<open>onChange\<close> handler blanked), the handlers attached to its selects, and the values
  its selects show, both in document order.
\<close>

primrec display :: "'e element \<Rightarrow> unit element" where
  "display (Fragment cs) = Fragment (map display cs)"
| "display (GridContainer cs) = GridContainer (map display cs)"
| "display (GridItem n cs) = GridItem n (map display cs)"
| "display (Typography variant content) = Typography variant content"
| "display (Divider variant) = Divider variant"
| "display (FormControl cs) = FormControl (map display cs)"
| "display (InputLabel ident content) = InputLabel ident content"
| "display (Select labelId lab placeholder val handler cs) =
     Select labelId lab placeholder val (\<lambda>v. Inr []) (map display cs)"
| "display (MenuItem val content) = MenuItem val content"

primrec onChanges :: "'e element \<Rightarrow> (string \<Rightarrow> error + 'e list) list" where
  "onChanges (Fragment cs) = concat (map onChanges cs)"
| "onChanges (GridContainer cs) = concat (map onChanges cs)"
| "onChanges (GridItem n cs) = concat (map onChanges cs)"
| "onChanges (Typography variant content) = []"
| "onChanges (Divider variant) = []"
| "onChanges (FormControl cs) = concat (map onChanges cs)"
| "onChanges (InputLabel ident content) = []"
| "onChanges (Select labelId lab placeholder val handler cs) =
     handler # concat (map onChanges cs)"
| "onChanges (MenuItem val content) = []"

primrec selectValues :: "'e element \<Rightarrow> string option list" where
  "selectValues (Fragment cs) = concat (map selectValues cs)"
| "selectValues (GridContainer cs) = concat (map selectValues cs)"
| "selectValues (GridItem n cs) = concat (map selectValues cs)"
| "selectValues (Typography variant content) = []"
| "selectValues (Divider variant) = []"
| "selectValues (FormControl cs) = concat (map selectValues cs)"
| "selectValues (InputLabel ident content) = []"
| "selectValues (Select labelId lab placeholder val handler cs) =
     val # concat (map selectValues cs)"
| "selectValues (MenuItem val content) = []"

text \<open>What a completed render displays; an exception is kept.\<close>

definition displayed :: "error + ('e element \<times> 'e list) \<Rightarrow> error + unit element" where
  "displayed r = (case r of Inl e \<Rightarrow> Inl e | Inr (tree, cs) \<Rightarrow> Inr (display tree))"

section \<open>Properties\<close>

subsection \<open>Property reads and the sort-by handler\<close>

lemma spread_Some: "spread (Some sb) = sb"
  by (simp add: spread_def)

lemma js_get_Own_iff: "js_get obj k = Own x \<longleftrightarrow> map_of obj k = Some x"
  by (simp add: js_get_def split: option.splits)

lemma js_get_cases:
  "js_get obj k =
     (if k \<in> set (js_keys obj) then (case map_of obj k of Some x \<Rightarrow> Own x | None \<Rightarrow> Undefined)
      else if k \<in> set ObjectPrototypeKeys then Inherited else Undefined)"
proof (cases "map_of obj k")
  case None
  then have "k \<notin> set (js_keys obj)"
    by (simp add: js_keys_def map_of_eq_None_iff)
  with None show ?thesis by (simp add: js_get_def)
next
  case (Some x)
  then have "k \<in> set (js_keys obj)"
    using map_of_eq_None_iff [of obj k] by (simp add: js_keys_def)
  with Some show ?thesis by (simp add: js_get_def)
qed

lemma map_of_in_keys: "k \<in> set (js_keys obj) \<Longrightarrow> \<exists>x. map_of obj k = Some x"
  using map_of_eq_None_iff [of obj k] by (cases "map_of obj k") (simp_all add: js_keys_def)

lemma handleOnSortByChanged_with_Own:
  "js_get table (if v = [] then ''newest'' else v) = Own option \<Longrightarrow>
   handleOnSortByChanged_with table p v = Inr [onSortingChanged p (sortBy option)]"
  by (simp add: handleOnSortByChanged_with_def spread_Some)

lemma handleOnSortByChanged_Some:
  "map_of SortByOptions (if v = [] then ''newest'' else v) = Some option \<Longrightarrow>
   handleOnSortByChanged p v = Inr [onSortingChanged p (sortBy option)]"
  unfolding handleOnSortByChanged_def
  by (rule handleOnSortByChanged_with_Own) (simp add: js_get_Own_iff)

lemma handleOnViewChanged_flags:
  "handleOnViewChanged p v =
     Inr [onUnreadOnlyChanged p
            (if v = ''unread'' then Some True else if v = ''read'' then Some False else None),
          onSavedChanged p (if v = ''saved'' then Some True else None)]"
  by (simp add: handleOnViewChanged_def)

lemma map_of_SortByOptions_oldest:
  "map_of SortByOptions ''oldest'' =
     Some \<lparr>label = ''Oldest on top'',
           sortBy = \<lparr>sort' = Some ''created'', sortOrder = Some ''asc''\<rparr>\<rparr>"
  by (simp add: SortByOptions_def)

lemma newest_is_key: "''newest'' \<in> set (js_keys SortByOptions)"
  by (simp add: js_keys_def SortByOptions_def)

lemma sort_completes_key:
  assumes "v = [] \<or> v \<in> set (js_keys SortByOptions)"
  shows "\<exists>cs. handleOnSortByChanged p v = Inr cs"
proof -
  have "(if v = [] then ''newest'' else v) \<in> set (js_keys SortByOptions)"
    using assms newest_is_key by auto
  then obtain option where "map_of SortByOptions (if v = [] then ''newest'' else v) = Some option"
    using map_of_in_keys by blast
  then show ?thesis
    using handleOnSortByChanged_Some by blast
qed

lemma sort_completes_inherited:
  assumes "v \<in> set ObjectPrototypeKeys"
  shows "\<exists>cs. handleOnSortByChanged p v = Inr cs"
proof -
  have "v \<noteq> []" using assms by (auto simp: ObjectPrototypeKeys_def)
  then show ?thesis using assms
    by (simp add: handleOnSortByChanged_def handleOnSortByChanged_with_def js_get_def
        split: option.splits)
qed

lemma sort_throws:
  assumes "v \<noteq> []" "v \<notin> set (js_keys SortByOptions)" "v \<notin> set ObjectPrototypeKeys"
  shows "handleOnSortByChanged p v = Inl TypeError"
  using assms
  by (simp add: handleOnSortByChanged_def handleOnSortByChanged_with_def js_get_cases)

subsection \<open>What the handlers pass to the callbacks\<close>

text \<open>
  C1, as stated: every handler forwards the event value verbatim to its callbacks. This
  fails for the view handler and for the sort-by handler. On the value \<^verbatim>\<open>'unread'\<close>
  the view handler calls \<^verbatim>\<open>onUnreadOnlyChanged(true)\<close> and
  \<^verbatim>\<open>onSavedChanged(undefined)\<close>, and on \<^verbatim>\<open>'oldest'\<close> the sort-by handler calls
  \<^verbatim>\<open>onSortingChanged\<close> with an object: neither callback is given the string.
\<close>

theorem view_and_sort_not_verbatim:
  "\<not> forwards_verbatim
        (handleOnViewChanged
           (recorder None None \<lparr>sort' = Some ''created'', sortOrder = Some ''desc''\<rparr> None)
           ''unread'') ''unread''
   \<and> \<not> forwards_verbatim
        (handleOnSortByChanged
           (recorder None None \<lparr>sort' = Some ''created'', sortOrder = Some ''desc''\<rparr> None)
           ''oldest'') ''oldest''"
  by (simp add: forwards_verbatim_def handleOnViewChanged_def recorder_def
      handleOnSortByChanged_def handleOnSortByChanged_with_def js_get_def SortByOptions_def)

text \<open>
  C1, amended: only the created-after handler forwards the event value verbatim, calling
  \<^verbatim>\<open>onCreatedAfterChanged\<close> once with exactly that value. The view handler translates
  the value into two flags: \<^verbatim>\<open>onUnreadOnlyChanged\<close> receives \<^verbatim>\<open>true\<close> for
  \<^verbatim>\<open>'unread'\<close>, \<^verbatim>\<open>false\<close> for \<^verbatim>\<open>'read'\<close> and \<^verbatim>\<open>undefined\<close> otherwise, and
  \<^verbatim>\<open>onSavedChanged\<close> receives \<^verbatim>\<open>true\<close> for \<^verbatim>\<open>'saved'\<close> and \<^verbatim>\<open>undefined\<close>
  otherwise. The sort-by handler translates a key of \<^verbatim>\<open>SortByOptions\<close> (the empty
  string standing for \<^verbatim>\<open>'newest'\<close>) into that entry's \<^verbatim>\<open>sortBy\<close>, which it passes
  to \<^verbatim>\<open>onSortingChanged\<close>.
\<close>

theorem handlers_forwarding:
  "handleOnCreatedAfterChanged p v = Inr [onCreatedAfterChanged p v]
   \<and> forwards_verbatim (handleOnCreatedAfterChanged (recorder u c s sv) v) v
   \<and> handleOnViewChanged p v =
       Inr [onUnreadOnlyChanged p
              (if v = ''unread'' then Some True else if v = ''read'' then Some False else None),
            onSavedChanged p (if v = ''saved'' then Some True else None)]
   \<and> (map_of SortByOptions (if v = [] then ''newest'' else v) = Some option \<longrightarrow>
        handleOnSortByChanged p v = Inr [onSortingChanged p (sortBy option)])"
  using handleOnSortByChanged_Some [of v option p]
  by (simp add: handleOnCreatedAfterChanged_def forwards_verbatim_def recorder_def
      handleOnViewChanged_flags)

theorem handlers_forwarding_witness:
  "map_of SortByOptions ''oldest'' =
     Some \<lparr>label = ''Oldest on top'',
           sortBy = \<lparr>sort' = Some ''created'', sortOrder = Some ''asc''\<rparr>\<rparr>
   \<and> handleOnSortByChanged
        (recorder None None \<lparr>sort' = Some ''created'', sortOrder = Some ''desc''\<rparr> None)
        ''oldest''
     = Inr [OnSortingChanged \<lparr>sort' = Some ''created'', sortOrder = Some ''asc''\<rparr>]"
  using handlers_forwarding
    [of "recorder None None \<lparr>sort' = Some ''created'', sortOrder = Some ''desc''\<rparr> None"
      "''oldest''" None None "\<lparr>sort' = Some ''created'', sortOrder = Some ''desc''\<rparr>" None
      "\<lparr>label = ''Oldest on top'',
        sortBy = \<lparr>sort' = Some ''created'', sortOrder = Some ''asc''\<rparr>\<rparr>"]
  by (simp add: map_of_SortByOptions_oldest recorder_def)

subsection \<open>Which events a handler survives\<close>

text \<open>
  C2, as stated: every handler completes without an error on every string. This fails for
  the sort-by handler: on \<^verbatim>\<open>'foo'\<close>, which is not a key of \<^verbatim>\<open>SortByOptions\<close>,
  \<^verbatim>\<open>SortByOptions[idx]\<close> is \<^verbatim>\<open>undefined\<close> and reading its \<^verbatim>\<open>sortBy\<close> throws a
  TypeError.
\<close>

theorem sort_by_unknown_key_throws:
  "handleOnSortByChanged
     (recorder None None \<lparr>sort' = Some ''created'', sortOrder = Some ''desc''\<rparr> None) ''foo''
   = Inl TypeError"
  by (simp add: handleOnSortByChanged_def handleOnSortByChanged_with_def js_get_def
      SortByOptions_def ObjectPrototypeKeys_def)

text \<open>
  C2, amended: the created-after and the view handler complete on every string. The
  sort-by handler completes when the event value is the empty string, a key of
  \<^verbatim>\<open>SortByOptions\<close> (the values its menu offers) or a property name inherited from
  \<^verbatim>\<open>Object.prototype\<close>; on every other string it throws a TypeError.
\<close>

theorem handlers_completion:
  "(\<exists>cs. handleOnCreatedAfterChanged p v = Inr cs)
   \<and> (\<exists>cs. handleOnViewChanged p v = Inr cs)
   \<and> (v = [] \<or> v \<in> set (js_keys SortByOptions) \<or> v \<in> set ObjectPrototypeKeys \<longrightarrow>
        (\<exists>cs. handleOnSortByChanged p v = Inr cs))
   \<and> (v \<noteq> [] \<and> v \<notin> set (js_keys SortByOptions) \<and> v \<notin> set ObjectPrototypeKeys \<longrightarrow>
        handleOnSortByChanged p v = Inl TypeError)"
  using sort_completes_key [of v p] sort_completes_inherited [of v p] sort_throws [of v p]
  by (auto simp: handleOnCreatedAfterChanged_def handleOnViewChanged_flags)

theorem handlers_completion_witness:
  "''topic'' \<in> set (js_keys SortByOptions)
   \<and> (\<exists>cs. handleOnSortByChanged
        (recorder None None \<lparr>sort' = Some ''created'', sortOrder = Some ''desc''\<rparr> None)
        ''topic'' = Inr cs)
   \<and> ''bar'' \<noteq> [] \<and> ''bar'' \<notin> set (js_keys SortByOptions) \<and> ''bar'' \<notin> set ObjectPrototypeKeys
   \<and> handleOnSortByChanged
        (recorder None None \<lparr>sort' = Some ''created'', sortOrder = Some ''desc''\<rparr> None)
        ''bar'' = Inl TypeError"
  using
    handlers_completion
      [of "recorder None None \<lparr>sort' = Some ''created'', sortOrder = Some ''desc''\<rparr> None"
        "''topic''"]
    handlers_completion
      [of "recorder None None \<lparr>sort' = Some ''created'', sortOrder = Some ''desc''\<rparr> None"
        "''bar''"]
  by (simp add: js_keys_def SortByOptions_def ObjectPrototypeKeys_def)

subsection \<open>What of a table reaches the output\<close>

lemma map_of_labels_of: "map_of (labels_of table) k = map_option label (map_of table k)"
  by (induction table) (auto simp: labels_of_def)

lemma js_keys_labels_of: "js_keys table = map fst (labels_of table)"
  by (simp add: js_keys_def labels_of_def case_prod_unfold comp_def)

lemma optionItem_cong:
  assumes "labels_of table = labels_of table'"
  shows "optionItem table = optionItem table'"
proof (rule ext)
  fix key
  have "map_option label (map_of table key) = map_option label (map_of table' key)"
    using assms map_of_labels_of [of table key] map_of_labels_of [of table' key] by simp
  then show "optionItem table key = optionItem table' key"
    by (cases "map_of table key"; cases "map_of table' key")
      (simp_all add: optionItem_def js_get_def)
qed

lemma optionItems_cong:
  assumes "labels_of table = labels_of table'"
  shows "optionItems table = optionItems table'"
  by (simp add: optionItems_def js_keys_labels_of assms optionItem_cong [OF assms])

lemma NotificationsFilters_with_cong:
  fixes p :: "'e props"
  assumes "labels_of cao = labels_of cao'"
  shows "NotificationsFilters_with cao sbo p = NotificationsFilters_with cao' sbo p"
proof -
  have "(optionItems cao :: error + 'e element list) = optionItems cao'"
    using assms by (rule optionItems_cong)
  then show ?thesis
    by (simp only: NotificationsFilters_with_def)
qed

text \<open>
  C3, as stated: the tables are consumed only for their labels, and no data of an entry
  other than its label flows into the component's output or callbacks. This fails for
  \<^verbatim>\<open>SortByOptions\<close>: two tables with the same keys and labels whose \<^verbatim>\<open>'oldest'\<close>
  entries differ in \<^verbatim>\<open>sortBy\<close> make the sort-by handler call \<^verbatim>\<open>onSortingChanged\<close>
  with different arguments, and on the table of the source the handler passes the
  entry's \<^verbatim>\<open>sortBy\<close>.
\<close>

theorem sort_by_data_reaches_callback:
  "labels_of
     [(''newest'', \<lparr>label = ''Newest on top'',
                    sortBy = \<lparr>sort' = Some ''created'', sortOrder = Some ''desc''\<rparr>\<rparr>),
      (''oldest'', \<lparr>label = ''Oldest on top'',
                    sortBy = \<lparr>sort' = Some ''topic'', sortOrder = Some ''desc''\<rparr>\<rparr>),
      (''topic'', \<lparr>label = ''Topic'',
                   sortBy = \<lparr>sort' = Some ''topic'', sortOrder = Some ''asc''\<rparr>\<rparr>),
      (''origin'', \<lparr>label = ''Origin'',
                    sortBy = \<lparr>sort' = Some ''origin'', sortOrder = Some ''asc''\<rparr>\<rparr>)]
   = labels_of SortByOptions
   \<and> handleOnSortByChanged_with
     [(''newest'', \<lparr>label = ''Newest on top'',
                    sortBy = \<lparr>sort' = Some ''created'', sortOrder = Some ''desc''\<rparr>\<rparr>),
      (''oldest'', \<lparr>label = ''Oldest on top'',
                    sortBy = \<lparr>sort' = Some ''topic'', sortOrder = Some ''desc''\<rparr>\<rparr>),
      (''topic'', \<lparr>label = ''Topic'',
                   sortBy = \<lparr>sort' = Some ''topic'', sortOrder = Some ''asc''\<rparr>\<rparr>),
      (''origin'', \<lparr>label = ''Origin'',
                    sortBy = \<lparr>sort' = Some ''origin'', sortOrder = Some ''asc''\<rparr>\<rparr>)]
       (recorder None None \<lparr>sort' = Some ''created'', sortOrder = Some ''desc''\<rparr> None)
       ''oldest''
     \<noteq> handleOnSortByChanged_with SortByOptions
       (recorder None None \<lparr>sort' = Some ''created'', sortOrder = Some ''desc''\<rparr> None)
       ''oldest''
   \<and> handleOnSortByChanged
       (recorder None None \<lparr>sort' = Some ''created'', sortOrder = Some ''desc''\<rparr> None)
       ''oldest''
     = Inr [OnSortingChanged \<lparr>sort' = Some ''created'', sortOrder = Some ''asc''\<rparr>]"
  by (simp add: labels_of_def SortByOptions_def handleOnSortByChanged_def
      handleOnSortByChanged_with_def js_get_def recorder_def spread_def)

text \<open>
  C3, amended: \<^verbatim>\<open>CreatedAfterOptions\<close> is consumed only for its keys and labels: two
  tables with the same keys and labels give the same rendering, handlers included, so
  \<^verbatim>\<open>getDate\<close> is never read. Of \<^verbatim>\<open>SortByOptions\<close> the menu items show only keys
  and labels, and the \<^verbatim>\<open>sortBy\<close> of the selected entry is read by the sort-by
  handler and passed to \<^verbatim>\<open>onSortingChanged\<close>.
\<close>

theorem table_data_use:
  fixes p :: "'e props"
  shows "(labels_of cao = labels_of cao' \<longrightarrow>
      NotificationsFilters_with cao sbo p = NotificationsFilters_with cao' sbo p)
   \<and> (labels_of sbo = labels_of sbo' \<longrightarrow>
      (optionItems sbo :: error + 'e element list) = optionItems sbo')
   \<and> (js_get sbo (if v = [] then ''newest'' else v) = Own option \<longrightarrow>
      handleOnSortByChanged_with sbo p v = Inr [onSortingChanged p (sortBy option)])"
  using NotificationsFilters_with_cong [of cao cao' sbo p]
    optionItems_cong [of sbo sbo']
    handleOnSortByChanged_with_Own [of sbo v option p]
  by blast

lemma js_get_SortByOptions_topic:
  "js_get SortByOptions ''topic'' =
     Own \<lparr>label = ''Topic'', sortBy = \<lparr>sort' = Some ''topic'', sortOrder = Some ''asc''\<rparr>\<rparr>"
  by (simp add: js_get_def SortByOptions_def)

theorem table_data_use_witness:
  "labels_of
     [(''last24h'', \<lparr>label = ''Last 24h'', getDate = (\<lambda>now. now)\<rparr>),
      (''lastWeek'', \<lparr>label = ''Last week'', getDate = (\<lambda>now. now)\<rparr>),
      (''all'', \<lparr>label = ''Any time'', getDate = (\<lambda>now. now)\<rparr>)]
     = labels_of CreatedAfterOptions
   \<and> NotificationsFilters_with
       [(''last24h'', \<lparr>label = ''Last 24h'', getDate = (\<lambda>now. now)\<rparr>),
        (''lastWeek'', \<lparr>label = ''Last week'', getDate = (\<lambda>now. now)\<rparr>),
        (''all'', \<lparr>label = ''Any time'', getDate = (\<lambda>now. now)\<rparr>)]
       SortByOptions
       (recorder None None \<lparr>sort' = Some ''created'', sortOrder = Some ''desc''\<rparr> None)
     = NotificationsFilters
       (recorder None None \<lparr>sort' = Some ''created'', sortOrder = Some ''desc''\<rparr> None)
   \<and> labels_of
       [(''topic'', \<lparr>label = ''Topic'',
                    sortBy = \<lparr>sort' = Some ''origin'', sortOrder = Some ''desc''\<rparr>\<rparr>)]
     = labels_of
       [(''topic'', \<lparr>label = ''Topic'',
                    sortBy = \<lparr>sort' = Some ''topic'', sortOrder = Some ''asc''\<rparr>\<rparr>)]
   \<and> (optionItems
       [(''topic'', \<lparr>label = ''Topic'',
                    sortBy = \<lparr>sort' = Some ''origin'', sortOrder = Some ''desc''\<rparr>\<rparr>)]
        :: error + call element list)
     = optionItems
       [(''topic'', \<lparr>label = ''Topic'',
                    sortBy = \<lparr>sort' = Some ''topic'', sortOrder = Some ''asc''\<rparr>\<rparr>)]
   \<and> js_get SortByOptions ''topic'' =
       Own \<lparr>label = ''Topic'', sortBy = \<lparr>sort' = Some ''topic'', sortOrder = Some ''asc''\<rparr>\<rparr>
   \<and> handleOnSortByChanged_with SortByOptions
       (recorder None None \<lparr>sort' = Some ''created'', sortOrder = Some ''desc''\<rparr> None)
       ''topic''
     = Inr [OnSortingChanged \<lparr>sort' = Some ''topic'', sortOrder = Some ''asc''\<rparr>]"
proof -
  let ?p = "recorder None None \<lparr>sort' = Some ''created'', sortOrder = Some ''desc''\<rparr> None"
  let ?cao = "[(''last24h'', \<lparr>label = ''Last 24h'', getDate = (\<lambda>now. now)\<rparr>),
      (''lastWeek'', \<lparr>label = ''Last week'', getDate = (\<lambda>now. now)\<rparr>),
      (''all'', \<lparr>label = ''Any time'', getDate = (\<lambda>now::int. now)\<rparr>)]"
  let ?sbo = "[(''topic'', \<lparr>label = ''Topic'',
                    sortBy = \<lparr>sort' = Some ''origin'', sortOrder = Some ''desc''\<rparr>\<rparr>)]"
  let ?sbo' = "[(''topic'', \<lparr>label = ''Topic'',
                    sortBy = \<lparr>sort' = Some ''topic'', sortOrder = Some ''asc''\<rparr>\<rparr>)]"
  let ?option = "\<lparr>label = ''Topic'', sortBy = \<lparr>sort' = Some ''topic'', sortOrder = Some ''asc''\<rparr>\<rparr>"
  have a: "labels_of ?cao = labels_of CreatedAfterOptions"
    by (simp add: labels_of_def CreatedAfterOptions_def)
  have b: "labels_of ?sbo = labels_of ?sbo'"
    by (simp add: labels_of_def)
  have c: "js_get SortByOptions (if ''topic'' = [] then ''newest'' else ''topic'') = Own ?option"
    by (simp add: js_get_SortByOptions_topic)
  have d: "onSortingChanged ?p = OnSortingChanged"
    by (simp add: recorder_def)
  note t1 = table_data_use [of ?cao CreatedAfterOptions SortByOptions ?p SortByOptions
      "''topic''" ?option]
  note t2 = table_data_use [of ?cao CreatedAfterOptions ?sbo ?p ?sbo' "''topic''" ?option]
  show ?thesis
    using a b c d t1 t2 js_get_SortByOptions_topic
    by (simp add: NotificationsFilters_def)
qed

subsection \<open>The view select\<close>

text \<open>
  C4: a view-change event with value \<^verbatim>\<open>'unread'\<close> calls
  \<^verbatim>\<open>onUnreadOnlyChanged(true)\<close> and \<^verbatim>\<open>onSavedChanged(undefined)\<close>; \<^verbatim>\<open>'read'\<close>
  calls \<^verbatim>\<open>onUnreadOnlyChanged(false)\<close> and \<^verbatim>\<open>onSavedChanged(undefined)\<close>;
  \<^verbatim>\<open>'saved'\<close> calls \<^verbatim>\<open>onUnreadOnlyChanged(undefined)\<close> and
  \<^verbatim>\<open>onSavedChanged(true)\<close>; any other value calls both with \<^verbatim>\<open>undefined\<close>. In
  every case each of the two callbacks is invoked exactly once, and no other callback is.
\<close>

theorem view_selection_flags:
  "(v = ''unread'' \<longrightarrow>
      handleOnViewChanged p v = Inr [onUnreadOnlyChanged p (Some True), onSavedChanged p None])
   \<and> (v = ''read'' \<longrightarrow>
      handleOnViewChanged p v = Inr [onUnreadOnlyChanged p (Some False), onSavedChanged p None])
   \<and> (v = ''saved'' \<longrightarrow>
      handleOnViewChanged p v = Inr [onUnreadOnlyChanged p None, onSavedChanged p (Some True)])
   \<and> (v \<noteq> ''unread'' \<and> v \<noteq> ''read'' \<and> v \<noteq> ''saved'' \<longrightarrow>
      handleOnViewChanged p v = Inr [onUnreadOnlyChanged p None, onSavedChanged p None])
   \<and> invocations is_OnUnreadOnlyChanged (handleOnViewChanged (recorder u c s sv) v) = 1
   \<and> invocations is_OnSavedChanged (handleOnViewChanged (recorder u c s sv) v) = 1
   \<and> invocations (\<lambda>c. True) (handleOnViewChanged (recorder u c s sv) v) = 2"
  by (simp add: handleOnViewChanged_def invocations_def recorder_def)

theorem view_selection_flags_witness:
  "handleOnViewChanged
     (recorder None None \<lparr>sort' = Some ''created'', sortOrder = Some ''desc''\<rparr> None) ''unread''
     = Inr [OnUnreadOnlyChanged (Some True), OnSavedChanged None]
   \<and> handleOnViewChanged
     (recorder None None \<lparr>sort' = Some ''created'', sortOrder = Some ''desc''\<rparr> None) ''read''
     = Inr [OnUnreadOnlyChanged (Some False), OnSavedChanged None]
   \<and> handleOnViewChanged
     (recorder None None \<lparr>sort' = Some ''created'', sortOrder = Some ''desc''\<rparr> None) ''saved''
     = Inr [OnUnreadOnlyChanged None, OnSavedChanged (Some True)]
   \<and> handleOnViewChanged
     (recorder None None \<lparr>sort' = Some ''created'', sortOrder = Some ''desc''\<rparr> None) ''all''
     = Inr [OnUnreadOnlyChanged None, OnSavedChanged None]"
  using
    view_selection_flags [of "''unread''"
      "recorder None None \<lparr>sort' = Some ''created'', sortOrder = Some ''desc''\<rparr> None"]
    view_selection_flags [of "''read''"
      "recorder None None \<lparr>sort' = Some ''created'', sortOrder = Some ''desc''\<rparr> None"]
    view_selection_flags [of "''saved''"
      "recorder None None \<lparr>sort' = Some ''created'', sortOrder = Some ''desc''\<rparr> None"]
    view_selection_flags [of "''all''"
      "recorder None None \<lparr>sort' = Some ''created'', sortOrder = Some ''desc''\<rparr> None"]
  by (simp add: recorder_def)

subsection \<open>Rendering\<close>

lemma optionItems_CreatedAfterOptions:
  "optionItems CreatedAfterOptions =
     Inr [MenuItem ''last24h'' (Some ''Last 24h''), MenuItem ''lastWeek'' (Some ''Last week''),
          MenuItem ''all'' (Some ''Any time'')]"
  by (simp add: js_keys_def CreatedAfterOptions_def optionItems_def optionItem_def js_get_def)

lemma optionItems_SortByOptions:
  "optionItems SortByOptions =
     Inr [MenuItem ''newest'' (Some ''Newest on top''),
          MenuItem ''oldest'' (Some ''Oldest on top''),
          MenuItem ''topic'' (Some ''Topic''), MenuItem ''origin'' (Some ''Origin'')]"
  by (simp add: js_keys_def SortByOptions_def optionItems_def optionItem_def js_get_def)

lemma props_eqI:
  fixes p q :: "'e props"
  assumes "unreadOnly p = unreadOnly q" "onUnreadOnlyChanged p = onUnreadOnlyChanged q"
    "createdAfter p = createdAfter q" "onCreatedAfterChanged p = onCreatedAfterChanged q"
    "sorting p = sorting q" "onSortingChanged p = onSortingChanged q"
    "saved p = saved q" "onSavedChanged p = onSavedChanged q"
  shows "p = q"
  using assms by (intro props.equality) simp_all

text \<open>
  C7: the displayed view value gives precedence to the saved flag. It is \<^verbatim>\<open>'saved'\<close>
  whenever \<^verbatim>\<open>saved\<close> is true, whatever \<^verbatim>\<open>unreadOnly\<close> is; otherwise \<^verbatim>\<open>'unread'\<close>
  when \<^verbatim>\<open>unreadOnly\<close> is true, \<^verbatim>\<open>'read'\<close> when it is exactly \<^verbatim>\<open>false\<close>, and
  \<^verbatim>\<open>'all'\<close> when it is undefined.
\<close>

theorem view_value_precedence:
  "(saved p = Some True \<longrightarrow> viewValue p = ''saved'')
   \<and> (saved p \<noteq> Some True \<and> unreadOnly p = Some True \<longrightarrow> viewValue p = ''unread'')
   \<and> (saved p \<noteq> Some True \<and> unreadOnly p = Some False \<longrightarrow> viewValue p = ''read'')
   \<and> (saved p \<noteq> Some True \<and> unreadOnly p = None \<longrightarrow> viewValue p = ''all'')"
  by (simp add: viewValue_def)

theorem view_value_precedence_witness:
  "viewValue (recorder (Some True) None \<lparr>sort' = None, sortOrder = None\<rparr> (Some True)) = ''saved''
   \<and> viewValue (recorder (Some False) None \<lparr>sort' = None, sortOrder = None\<rparr> (Some True))
       = ''saved''
   \<and> viewValue (recorder (Some True) None \<lparr>sort' = None, sortOrder = None\<rparr> (Some False))
       = ''unread''
   \<and> viewValue (recorder (Some False) None \<lparr>sort' = None, sortOrder = None\<rparr> None) = ''read''
   \<and> viewValue (recorder None None \<lparr>sort' = None, sortOrder = None\<rparr> None) = ''all''
   \<and> viewValue (recorder None None \<lparr>sort' = None, sortOrder = None\<rparr> (Some False)) = ''all''"
  using
    view_value_precedence
      [of "recorder (Some True) None \<lparr>sort' = None, sortOrder = None\<rparr> (Some True)"]
    view_value_precedence
      [of "recorder (Some False) None \<lparr>sort' = None, sortOrder = None\<rparr> (Some True)"]
    view_value_precedence
      [of "recorder (Some True) None \<lparr>sort' = None, sortOrder = None\<rparr> (Some False)"]
    view_value_precedence
      [of "recorder (Some False) None \<lparr>sort' = None, sortOrder = None\<rparr> None"]
    view_value_precedence
      [of "recorder None None \<lparr>sort' = None, sortOrder = None\<rparr> None"]
    view_value_precedence
      [of "recorder None None \<lparr>sort' = None, sortOrder = None\<rparr> (Some False)"]
  by (simp add: recorder_def)

subsection \<open>The sort-by select\<close>

lemma getSortByText_round_trip:
  "map_of SortByOptions k = Some option \<Longrightarrow> getSortByText (Some (sortBy option)) = k"
  by (auto simp: SortByOptions_def getSortByText_def split: if_splits)

lemma keys_nonempty: "map_of SortByOptions k = Some option \<Longrightarrow> k \<noteq> []"
  by (auto simp: SortByOptions_def split: if_splits)

text \<open>
  C6: sort selection round-trips through the display mapping. For every key \<open>k\<close> of
  \<^verbatim>\<open>SortByOptions\<close>, \<^verbatim>\<open>getSortByText(SortByOptions[k].sortBy)\<close> is \<open>k\<close>; so when the
  user picks \<open>k\<close>, the handler passes that entry's \<^verbatim>\<open>sortBy\<close> to
  \<^verbatim>\<open>onSortingChanged\<close>, and once the parent passes it back as the \<^verbatim>\<open>sorting\<close> prop
  the sort-by select displays \<open>k\<close>.
\<close>

theorem sort_selection_round_trip:
  "map_of SortByOptions k = Some option \<Longrightarrow>
     getSortByText (Some (sortBy option)) = k
     \<and> handleOnSortByChanged p k = Inr [onSortingChanged p (sortBy option)]
     \<and> sortByText (p\<lparr>sorting := sortBy option\<rparr>) = k"
  using getSortByText_round_trip [of k option] keys_nonempty [of k option]
    handleOnSortByChanged_Some [of k option p]
  by (simp add: sortByText_def)

theorem sort_selection_round_trip_witness:
  "map_of SortByOptions ''oldest'' =
     Some \<lparr>label = ''Oldest on top'',
           sortBy = \<lparr>sort' = Some ''created'', sortOrder = Some ''asc''\<rparr>\<rparr>
   \<and> getSortByText (Some \<lparr>sort' = Some ''created'', sortOrder = Some ''asc''\<rparr>) = ''oldest''
   \<and> handleOnSortByChanged
        (recorder None None \<lparr>sort' = Some ''created'', sortOrder = Some ''desc''\<rparr> None)
        ''oldest''
       = Inr [OnSortingChanged \<lparr>sort' = Some ''created'', sortOrder = Some ''asc''\<rparr>]
   \<and> sortByText
        (recorder None None \<lparr>sort' = Some ''created'', sortOrder = Some ''asc''\<rparr> None)
       = ''oldest''"
  using sort_selection_round_trip [OF map_of_SortByOptions_oldest,
      of "recorder None None \<lparr>sort' = Some ''created'', sortOrder = Some ''desc''\<rparr> None"]
  by (simp add: map_of_SortByOptions_oldest recorder_def)

text \<open>
  C8: \<^verbatim>\<open>getSortByText\<close> is total over optional \<^verbatim>\<open>SortBy\<close> values and defaults to
  \<^verbatim>\<open>'newest'\<close>: it returns \<^verbatim>\<open>'newest'\<close> for \<^verbatim>\<open>undefined\<close> and for every
  \<^verbatim>\<open>SortBy\<close> that matches none of the patterns (sort \<^verbatim>\<open>'created'\<close> with order
  \<^verbatim>\<open>'asc'\<close>, sort \<^verbatim>\<open>'topic'\<close>, sort \<^verbatim>\<open>'origin'\<close>); so its result is always one
  of the four keys of \<^verbatim>\<open>SortByOptions\<close>.
\<close>

theorem getSortByText_defaults_to_newest:
  "getSortByText None = ''newest''
   \<and> (\<not> (sort' sb = Some ''created'' \<and> sortOrder sb = Some ''asc'')
       \<and> sort' sb \<noteq> Some ''topic'' \<and> sort' sb \<noteq> Some ''origin'' \<longrightarrow>
      getSortByText (Some sb) = ''newest'')
   \<and> getSortByText x \<in> set (js_keys SortByOptions)
   \<and> js_keys SortByOptions = [''newest'', ''oldest'', ''topic'', ''origin'']"
  by (simp add: getSortByText_def js_keys_def SortByOptions_def)

theorem getSortByText_defaults_to_newest_witness:
  "getSortByText (Some \<lparr>sort' = Some ''created'', sortOrder = Some ''desc''\<rparr>) = ''newest''
   \<and> getSortByText (Some \<lparr>sort' = Some ''severity'', sortOrder = Some ''asc''\<rparr>) = ''newest''
   \<and> getSortByText (Some \<lparr>sort' = None, sortOrder = None\<rparr>) = ''newest''"
  using
    getSortByText_defaults_to_newest [of "\<lparr>sort' = Some ''created'', sortOrder = Some ''desc''\<rparr>"]
    getSortByText_defaults_to_newest [of "\<lparr>sort' = Some ''severity'', sortOrder = Some ''asc''\<rparr>"]
    getSortByText_defaults_to_newest [of "\<lparr>sort' = None, sortOrder = None\<rparr>"]
  by simp

subsection \<open>Keys\<close>

text \<open>
  C10: keys are unique within each table. The keys of \<^verbatim>\<open>CreatedAfterOptions\<close> are
  \<^verbatim>\<open>'last24h'\<close>, \<^verbatim>\<open>'lastWeek'\<close>, \<^verbatim>\<open>'all'\<close>, those of \<^verbatim>\<open>SortByOptions\<close> are
  \<^verbatim>\<open>'newest'\<close>, \<^verbatim>\<open>'oldest'\<close>, \<^verbatim>\<open>'topic'\<close>, \<^verbatim>\<open>'origin'\<close>, each list without
  repetition; every key has exactly one entry, and the menu items rendered from a table
  carry pairwise distinct values.
\<close>

theorem table_keys_unique:
  "js_keys CreatedAfterOptions = [''last24h'', ''lastWeek'', ''all'']
   \<and> distinct (js_keys CreatedAfterOptions)
   \<and> map (\<lambda>k. length (entries_at CreatedAfterOptions k)) (js_keys CreatedAfterOptions)
       = [1, 1, 1]
   \<and> js_keys SortByOptions = [''newest'', ''oldest'', ''topic'', ''origin'']
   \<and> distinct (js_keys SortByOptions)
   \<and> map (\<lambda>k. length (entries_at SortByOptions k)) (js_keys SortByOptions) = [1, 1, 1, 1]
   \<and> optionItems CreatedAfterOptions =
       Inr [MenuItem ''last24h'' (Some ''Last 24h''), MenuItem ''lastWeek'' (Some ''Last week''),
            MenuItem ''all'' (Some ''Any time'')]
   \<and> optionItems SortByOptions =
       Inr [MenuItem ''newest'' (Some ''Newest on top''),
            MenuItem ''oldest'' (Some ''Oldest on top''),
            MenuItem ''topic'' (Some ''Topic''), MenuItem ''origin'' (Some ''Origin'')]"
  by (simp add: optionItems_CreatedAfterOptions optionItems_SortByOptions)
    (simp add: js_keys_def entries_at_def CreatedAfterOptions_def SortByOptions_def)

subsection \<open>The tables in the store\<close>

lemma passCopy_tables:
  "createdAfterTable (snd (passCopy copy st)) = createdAfterTable st
   \<and> sortByTable (snd (passCopy copy st)) = sortByTable st"
  by (simp add: passCopy_def Let_def)

lemma handler_store_tables:
  "createdAfterTable (snd (handleOnSortByChanged_store v st)) = createdAfterTable st
   \<and> sortByTable (snd (handleOnSortByChanged_store v st)) = sortByTable st"
  by (simp add: handleOnSortByChanged_store_def Let_def passCopy_tables split: property.splits)

lemma step_tables:
  "createdAfterTable (step st e) = createdAfterTable st
   \<and> sortByTable (step st e) = sortByTable st"
  by (cases e) (simp_all add: handler_store_tables)

lemma tableRefs_cong: "sortByTable st' = sortByTable st \<Longrightarrow> tableRefs st' = tableRefs st"
  by (simp add: tableRefs_def)

lemma passCopy_separated:
  assumes "separated st"
  shows "separated (snd (passCopy copy st))"
proof -
  let ?st' = "snd (passCopy copy st)"
  have refs: "tableRefs ?st' = tableRefs st"
    by (rule tableRefs_cong) (simp add: passCopy_tables)
  have below: "\<forall>r \<in> set (tableRefs st). r < fresh st"
    using assms by (simp add: separated_def list_all_iff)
  have apart: "\<forall>a \<in> set (received st). a \<notin> set (tableRefs st)"
    using assms by (simp add: separated_def list_all_iff)
  have "fresh ?st' = Suc (fresh st)" "received ?st' = fresh st # received st"
    by (simp_all add: passCopy_def Let_def)
  then show ?thesis
    using below apart refs by (auto simp: separated_def list_all_iff)
qed

lemma passCopy_heap:
  assumes "separated st" "r \<in> set (tableRefs st)"
  shows "heap (snd (passCopy copy st)) r = heap st r"
proof -
  have "r < fresh st"
    using assms by (simp add: separated_def list_all_iff)
  then show ?thesis
    by (simp add: passCopy_def Let_def)
qed

lemma handler_store_separated:
  "separated st \<Longrightarrow> separated (snd (handleOnSortByChanged_store v st))"
  by (simp add: handleOnSortByChanged_store_def Let_def passCopy_separated split: property.splits)

lemma handler_store_heap:
  "separated st \<Longrightarrow> r \<in> set (tableRefs st) \<Longrightarrow>
   heap (snd (handleOnSortByChanged_store v st)) r = heap st r"
  by (simp add: handleOnSortByChanged_store_def Let_def passCopy_heap split: property.splits)

lemma step_separated: "separated st \<Longrightarrow> separated (step st e)"
proof (cases e)
  case (SortByChanged v)
  assume "separated st"
  then show ?thesis using SortByChanged by (simp add: handler_store_separated)
next
  case (ParentWrites a sb)
  assume "separated st"
  then show ?thesis using ParentWrites by (simp add: separated_def tableRefs_def)
qed simp_all

lemma step_heap:
  assumes "separated st" "r \<in> set (tableRefs st)"
  shows "heap (step st e) r = heap st r"
proof (cases e)
  case (SortByChanged v)
  then show ?thesis using assms by (simp add: handler_store_heap)
next
  case (ParentWrites a sb)
  have "a \<in> set (received st) \<Longrightarrow> a \<noteq> r"
    using assms by (auto simp: separated_def list_all_iff)
  then show ?thesis using ParentWrites by auto
qed simp_all

lemma run_preserves:
  "separated st \<Longrightarrow>
     separated (run es st)
     \<and> createdAfterTable (run es st) = createdAfterTable st
     \<and> sortByTable (run es st) = sortByTable st
     \<and> (\<forall>r \<in> set (tableRefs st). heap (run es st) r = heap st r)"
proof (induction es arbitrary: st)
  case Nil
  then show ?case by (simp add: run_def)
next
  case (Cons e es)
  have sep: "separated (step st e)"
    using Cons.prems by (rule step_separated)
  have refs: "tableRefs (step st e) = tableRefs st"
    by (rule tableRefs_cong) (simp add: step_tables)
  have run: "run (e # es) st = run es (step st e)"
    by (simp add: run_def)
  show ?case
    using Cons.IH [OF sep] refs step_tables [of st e] step_heap [OF Cons.prems, of _ e]
    by (simp add: run)
qed

lemma deref_cong:
  assumes "sortByTable st' = sortByTable st"
    and "\<forall>r \<in> set (tableRefs st). heap st' r = heap st r"
  shows "deref st' = deref st"
  using assms by (auto simp: deref_def tableRefs_def)

lemma initialStore_separated: "separated initialStore"
  by (simp add: separated_def tableRefs_def initialStore_def)

lemma deref_initialStore: "deref initialStore = SortByOptions"
  by (simp add: deref_def initialStore_def SortByOptions_def)

lemma passCopy_fresh:
  assumes "separated st" "fst (passCopy copy st) = Inr a"
  shows "a \<notin> set (tableRefs st)"
proof -
  have "a = fresh st" using assms(2) by (simp add: passCopy_def Let_def)
  then show ?thesis using assms(1) by (auto simp: separated_def list_all_iff)
qed

lemma handler_store_fresh:
  "separated st \<Longrightarrow> fst (handleOnSortByChanged_store v st) = Inr a \<Longrightarrow> a \<notin> set (tableRefs st)"
  by (auto simp: handleOnSortByChanged_store_def Let_def split: property.splits dest: passCopy_fresh)

text \<open>
  The store model and the handler above agree: on a store whose table is that of the
  source, the object the parent receives holds what \<open>handleOnSortByChanged\<close> passes.
\<close>

lemma map_of_deref:
  "map_of (deref st) k =
     map_option (\<lambda>r. \<lparr>label = label r, sortBy = heap st (sortByRef r)\<rparr>) (map_of (sortByTable st) k)"
  by (simp add: deref_def map_of_map)

lemma passCopy_result:
  "passCopy copy st = (Inr a, st') \<Longrightarrow> heap st' a = copy"
  by (auto simp: passCopy_def Let_def)

lemma store_handler_agrees:
  assumes "deref st = SortByOptions"
  shows "handleOnSortByChanged (recorder u c s sv) v =
     (case handleOnSortByChanged_store v st of
        (Inl e, st') \<Rightarrow> Inl e
      | (Inr a, st') \<Rightarrow> Inr [OnSortingChanged (heap st' a)])"
proof -
  let ?idx = "if v = [] then ''newest'' else v"
  have m: "map_of SortByOptions ?idx =
      map_option (\<lambda>r. \<lparr>label = label r, sortBy = heap st (sortByRef r)\<rparr>)
        (map_of (sortByTable st) ?idx)"
    using map_of_deref [of st ?idx] assms by simp
  show ?thesis
  proof (cases "map_of (sortByTable st) ?idx")
    case None
    then have "map_of SortByOptions ?idx = None" using m by simp
    with None show ?thesis
      by (simp add: handleOnSortByChanged_def handleOnSortByChanged_with_def
          handleOnSortByChanged_store_def js_get_def passCopy_def Let_def recorder_def)
  next
    case (Some r)
    then have "map_of SortByOptions ?idx = Some \<lparr>label = label r, sortBy = heap st (sortByRef r)\<rparr>"
      using m by simp
    with Some show ?thesis
      by (simp add: handleOnSortByChanged_def handleOnSortByChanged_with_def
          handleOnSortByChanged_store_def js_get_def passCopy_def Let_def recorder_def spread_def)
  qed
qed

text \<open>
  C9: the lookup tables are immutable under every operation of the component. Rendering
  and the handlers write to neither table, and the sort-by handler hands the parent a
  fresh copy of the entry's \<^verbatim>\<open>sortBy\<close>, never the object the table holds. So after
  any sequence of renders, change events and writes of the parent to the objects it
  received, both tables are what the module built, the \<^verbatim>\<open>sortBy\<close> objects
  included.
\<close>

theorem tables_unchanged:
  "createdAfterTable (run es initialStore) = CreatedAfterOptions
   \<and> sortByTable (run es initialStore) = sortByTable initialStore
   \<and> deref (run es initialStore) = SortByOptions
   \<and> (fst (handleOnSortByChanged_store v (run es initialStore)) = Inr a \<longrightarrow>
        a \<notin> set (tableRefs (run es initialStore)))"
proof -
  note pres = run_preserves [OF initialStore_separated, of es]
  have "deref (run es initialStore) = deref initialStore"
    using pres by (intro deref_cong) simp_all
  moreover have "createdAfterTable initialStore = CreatedAfterOptions"
    by (simp add: initialStore_def)
  ultimately show ?thesis
    using pres handler_store_fresh [of "run es initialStore" v a]
    by (simp add: deref_initialStore)
qed

theorem tables_unchanged_witness:
  "fst (handleOnSortByChanged_store ''topic''
         (run [SortByChanged ''oldest'', ParentWrites 4 \<lparr>sort' = None, sortOrder = None\<rparr>,
               ParentWrites 1 \<lparr>sort' = None, sortOrder = None\<rparr>] initialStore)) = Inr 5
   \<and> 5 \<notin> set (tableRefs
         (run [SortByChanged ''oldest'', ParentWrites 4 \<lparr>sort' = None, sortOrder = None\<rparr>,
               ParentWrites 1 \<lparr>sort' = None, sortOrder = None\<rparr>] initialStore))
   \<and> heap (run [SortByChanged ''oldest'', ParentWrites 4 \<lparr>sort' = None, sortOrder = None\<rparr>,
               ParentWrites 1 \<lparr>sort' = None, sortOrder = None\<rparr>] initialStore) 4
       = \<lparr>sort' = None, sortOrder = None\<rparr>
   \<and> deref (run [SortByChanged ''oldest'', ParentWrites 4 \<lparr>sort' = None, sortOrder = None\<rparr>,
               ParentWrites 1 \<lparr>sort' = None, sortOrder = None\<rparr>] initialStore) = SortByOptions"
  using tables_unchanged [of "[SortByChanged ''oldest'', ParentWrites 4 \<lparr>sort' = None, sortOrder = None\<rparr>,
               ParentWrites 1 \<lparr>sort' = None, sortOrder = None\<rparr>]" "''topic''" 5]
  by (simp add: run_def handleOnSortByChanged_store_def js_get_def initialStore_def passCopy_def
      Let_def)

subsection \<open>Rendering after any history\<close>

lemma run_initialStore_tables:
  "createdAfterTable (run es initialStore) = CreatedAfterOptions
   \<and> deref (run es initialStore) = SortByOptions"
proof -
  note pres = run_preserves [OF initialStore_separated, of es]
  have "deref (run es initialStore) = deref initialStore"
    using pres by (intro deref_cong) simp_all
  moreover have "createdAfterTable initialStore = CreatedAfterOptions"
    by (simp add: initialStore_def)
  ultimately show ?thesis
    using pres by (simp add: deref_initialStore)
qed

lemma NotificationsFilters_store_run:
  "NotificationsFilters_store p (run es initialStore) = (NotificationsFilters p, run es initialStore)"
  by (simp add: NotificationsFilters_store_def NotificationsFilters_def run_initialStore_tables)

lemma NotificationsFilters_tree:
  "NotificationsFilters p =
     Inr (Fragment
       [GridContainer
         [GridItem 12 [Typography ''h6'' ''Filters'', Divider ''fullWidth''],
          GridItem 12
            [FormControl
              [InputLabel ''notifications-filter-view'' ''View'',
               Select (Some ''notifications-filter-view'') ''View'' None
                 (Some (viewValue p)) (handleOnViewChanged p)
                 [MenuItem ''unread'' (Some ''New only''),
                  MenuItem ''saved'' (Some ''Saved''),
                  MenuItem ''read'' (Some ''Marked as read''),
                  MenuItem ''all'' (Some ''All'')]]],
          GridItem 12
            [FormControl
              [InputLabel ''notifications-filter-view'' ''Created after'',
               Select None ''Created after'' (Some ''Notifications since'')
                 (createdAfter p) (handleOnCreatedAfterChanged p)
                 [MenuItem ''last24h'' (Some ''Last 24h''),
                  MenuItem ''lastWeek'' (Some ''Last week''),
                  MenuItem ''all'' (Some ''Any time'')]]],
          GridItem 12
            [FormControl
              [InputLabel ''notifications-filter-sort'' ''Sort by'',
               Select None ''Sort by'' (Some ''Field to sort by'')
                 (Some (sortByText p)) (handleOnSortByChanged p)
                 [MenuItem ''newest'' (Some ''Newest on top''),
                  MenuItem ''oldest'' (Some ''Oldest on top''),
                  MenuItem ''topic'' (Some ''Topic''),
                  MenuItem ''origin'' (Some ''Origin'')]]]]],
       [])"
  by (simp add: NotificationsFilters_def NotificationsFilters_with_def
      optionItems_CreatedAfterOptions optionItems_SortByOptions handleOnSortByChanged_def)

lemma viewValue_cong:
  "saved p = saved r \<Longrightarrow> unreadOnly p = unreadOnly r \<Longrightarrow> viewValue p = viewValue r"
  by (simp add: viewValue_def)

lemma sortByText_cong: "sorting p = sorting r \<Longrightarrow> sortByText p = sortByText r"
  by (simp add: sortByText_def)

lemma displayed_cong:
  assumes "unreadOnly p = unreadOnly r" "createdAfter p = createdAfter r"
    "sorting p = sorting r" "saved p = saved r"
  shows "displayed (NotificationsFilters p) = displayed (NotificationsFilters r)"
  using assms viewValue_cong [of p r] sortByText_cong [of p r]
  by (simp add: NotificationsFilters_tree displayed_def)

lemma NotificationsFilters_observed:
  "\<exists>tree. NotificationsFilters p = Inr (tree, [])
     \<and> selectValues tree = [Some (viewValue p), createdAfter p, Some (sortByText p)]
     \<and> onChanges tree =
         [handleOnViewChanged p, handleOnCreatedAfterChanged p, handleOnSortByChanged p]"
  by (simp add: NotificationsFilters_tree)

text \<open>
  What a render returns does depend on the store it runs in: on a store whose
  created-after table is empty the created-after select has no items.
\<close>

lemma rendering_reads_the_store:
  "displayed (fst (NotificationsFilters_store
       (recorder None None \<lparr>sort' = None, sortOrder = None\<rparr> None)
       (initialStore\<lparr>createdAfterTable := []\<rparr>)))
   \<noteq> displayed (fst (NotificationsFilters_store
       (recorder None None \<lparr>sort' = None, sortOrder = None\<rparr> None) initialStore))"
proof -
  have "deref (initialStore\<lparr>createdAfterTable := []\<rparr>) = SortByOptions"
    using deref_initialStore by (simp add: deref_def)
  moreover have "createdAfterTable initialStore = CreatedAfterOptions"
    by (simp add: initialStore_def)
  moreover have "(optionItems ([] :: (string \<times> createdAfterOption) list)
      :: error + call element list) = Inr []"
    by (simp add: optionItems_def js_keys_def)
  ultimately show ?thesis
    by (simp add: NotificationsFilters_store_def NotificationsFilters_with_def displayed_def
        deref_initialStore optionItems_CreatedAfterOptions optionItems_SortByOptions)
qed

text \<open>
  C5: the component holds no state of its own beyond derived display values. Whatever
  happened before a render (any sequence of renders, change events and writes of the
  parent to the objects it received), the render finds the tables as the module built
  them, and so:
  \<^item> what is displayed, and the derived values \<open>viewValue\<close> and \<open>sortByText\<close>, are
    determined by the four data props alone (\<^verbatim>\<open>unreadOnly\<close>, \<^verbatim>\<open>createdAfter\<close>,
    \<^verbatim>\<open>sorting\<close>, \<^verbatim>\<open>saved\<close>): two renders that agree on them display the same, after
    different histories and with different callbacks;
  \<^item> two renders with equal props, callbacks included, return the same output,
    handlers included, after different histories;
  \<^item> a render completes, leaves the store as it found it and invokes none of the
    callbacks: they are reachable only through the three \<^verbatim>\<open>onChange\<close> handlers of
    the returned tree, whose selects show \<open>viewValue\<close>, \<^verbatim>\<open>createdAfter\<close> and
    \<open>sortByText\<close>.
\<close>

theorem rendering_stateless:
  fixes p q :: "'e props" and r :: "'f props"
  shows
  "(unreadOnly p = unreadOnly r \<and> createdAfter p = createdAfter r
     \<and> sorting p = sorting r \<and> saved p = saved r \<longrightarrow>
       viewValue p = viewValue r \<and> sortByText p = sortByText r
       \<and> displayed (fst (NotificationsFilters_store p (run es initialStore)))
         = displayed (fst (NotificationsFilters_store r (run es' initialStore))))
   \<and> (unreadOnly p = unreadOnly q \<and> onUnreadOnlyChanged p = onUnreadOnlyChanged q
     \<and> createdAfter p = createdAfter q \<and> onCreatedAfterChanged p = onCreatedAfterChanged q
     \<and> sorting p = sorting q \<and> onSortingChanged p = onSortingChanged q
     \<and> saved p = saved q \<and> onSavedChanged p = onSavedChanged q \<longrightarrow>
       fst (NotificationsFilters_store p (run es initialStore))
       = fst (NotificationsFilters_store q (run es' initialStore)))
   \<and> snd (NotificationsFilters_store p (run es initialStore)) = run es initialStore
   \<and> (\<exists>tree. fst (NotificationsFilters_store p (run es initialStore)) = Inr (tree, [])
        \<and> selectValues tree = [Some (viewValue p), createdAfter p, Some (sortByText p)]
        \<and> onChanges tree =
            [handleOnViewChanged p, handleOnCreatedAfterChanged p, handleOnSortByChanged p])"
proof -
  have display_part:
    "viewValue p = viewValue r \<and> sortByText p = sortByText r
       \<and> displayed (fst (NotificationsFilters_store p (run es initialStore)))
         = displayed (fst (NotificationsFilters_store r (run es' initialStore)))"
    if "unreadOnly p = unreadOnly r" "createdAfter p = createdAfter r"
      "sorting p = sorting r" "saved p = saved r"
    using that displayed_cong [OF that] viewValue_cong [of p r] sortByText_cong [of p r]
    by (simp add: NotificationsFilters_store_run)
  have output_part:
    "fst (NotificationsFilters_store p (run es initialStore))
       = fst (NotificationsFilters_store q (run es' initialStore))"
    if "unreadOnly p = unreadOnly q" "onUnreadOnlyChanged p = onUnreadOnlyChanged q"
      "createdAfter p = createdAfter q" "onCreatedAfterChanged p = onCreatedAfterChanged q"
      "sorting p = sorting q" "onSortingChanged p = onSortingChanged q"
      "saved p = saved q" "onSavedChanged p = onSavedChanged q"
  proof -
    have "p = q" using that by (rule props_eqI)
    then show ?thesis by (simp add: NotificationsFilters_store_run)
  qed
  have store_part: "snd (NotificationsFilters_store p (run es initialStore)) = run es initialStore"
    by (simp add: NotificationsFilters_store_run)
  have observed_part:
    "\<exists>tree. fst (NotificationsFilters_store p (run es initialStore)) = Inr (tree, [])
        \<and> selectValues tree = [Some (viewValue p), createdAfter p, Some (sortByText p)]
        \<and> onChanges tree =
            [handleOnViewChanged p, handleOnCreatedAfterChanged p, handleOnSortByChanged p]"
    using NotificationsFilters_observed [of p] by (simp add: NotificationsFilters_store_run)
  show ?thesis
    using display_part output_part store_part observed_part by blast
qed

theorem rendering_stateless_witness:
  "viewValue (recorder (Some False) (Some ''all'')
       \<lparr>sort' = Some ''topic'', sortOrder = Some ''asc''\<rparr> None)
     = viewValue \<lparr>unreadOnly = Some False, onUnreadOnlyChanged = (\<lambda>b. ()),
        createdAfter = Some ''all'', onCreatedAfterChanged = (\<lambda>s. ()),
        sorting = \<lparr>sort' = Some ''topic'', sortOrder = Some ''asc''\<rparr>,
        onSortingChanged = (\<lambda>sb. ()), saved = None, onSavedChanged = (\<lambda>b. ())\<rparr>
   \<and> displayed (fst (NotificationsFilters_store
        (recorder (Some False) (Some ''all'')
           \<lparr>sort' = Some ''topic'', sortOrder = Some ''asc''\<rparr> None)
        (run [SortByChanged ''oldest'', ParentWrites 4 \<lparr>sort' = None, sortOrder = None\<rparr>,
              Render, ViewChanged ''saved'']
           initialStore)))
     = displayed (fst (NotificationsFilters_store
        \<lparr>unreadOnly = Some False, onUnreadOnlyChanged = (\<lambda>b. ()),
         createdAfter = Some ''all'', onCreatedAfterChanged = (\<lambda>s. ()),
         sorting = \<lparr>sort' = Some ''topic'', sortOrder = Some ''asc''\<rparr>,
         onSortingChanged = (\<lambda>sb. ()), saved = None, onSavedChanged = (\<lambda>b. ())\<rparr>
        (run [] initialStore)))
   \<and> fst (NotificationsFilters_store
        (recorder (Some False) (Some ''all'')
           \<lparr>sort' = Some ''topic'', sortOrder = Some ''asc''\<rparr> None)
        (run [SortByChanged ''oldest'', ParentWrites 4 \<lparr>sort' = None, sortOrder = None\<rparr>,
              Render, ViewChanged ''saved'']
           initialStore))
     = fst (NotificationsFilters_store
        (recorder (Some False) (Some ''all'')
           \<lparr>sort' = Some ''topic'', sortOrder = Some ''asc''\<rparr> None)
        (run [] initialStore))"
proof -
  let ?p = "recorder (Some False) (Some ''all'')
      \<lparr>sort' = Some ''topic'', sortOrder = Some ''asc''\<rparr> None"
  let ?r = "\<lparr>unreadOnly = Some False, onUnreadOnlyChanged = (\<lambda>b. ()),
      createdAfter = Some ''all'', onCreatedAfterChanged = (\<lambda>s. ()),
      sorting = \<lparr>sort' = Some ''topic'', sortOrder = Some ''asc''\<rparr>,
      onSortingChanged = (\<lambda>sb. ()), saved = None, onSavedChanged = (\<lambda>b. ())\<rparr>"
  let ?es = "[SortByChanged ''oldest'', ParentWrites 4 \<lparr>sort' = None, sortOrder = None\<rparr>,
      Render, ViewChanged ''saved'']"
  have data: "unreadOnly ?p = unreadOnly ?r \<and> createdAfter ?p = createdAfter ?r
      \<and> sorting ?p = sorting ?r \<and> saved ?p = saved ?r"
    by (simp add: recorder_def)
  show ?thesis
    using data rendering_stateless [where p = ?p and q = ?p and r = ?r and es = ?es and es' = "[]"]
    by blast
qed

end
